theory Spec2Isabelle
  imports Main "HOL-Library.AList" "HOL-Library.Sublist"
begin

section \<open>Time\<close>

text \<open>
  The program stamps records with \<^verbatim>\<open>datetime.now().isoformat()\<close> and reads the stamps
  back with \<^verbatim>\<open>datetime.fromisoformat\<close>. A naive datetime has microsecond resolution, so a
  stamp is the number of microseconds since a fixed origin, and a \<^verbatim>\<open>timedelta\<close> is a number
  of microseconds.
\<close>

type_synonym datetime = int
type_synonym timedelta = int

definition timedelta_seconds :: "int \<Rightarrow> timedelta" where
  "timedelta_seconds s = s * 1000000"

definition timedelta_hours :: "int \<Rightarrow> timedelta" where
  "timedelta_hours h = h * 3600 * 1000000"

section \<open>Decimal rendering of integers\<close>

text \<open>Python's \<^verbatim>\<open>str(n)\<close> for an integer, used inside the f-strings of the program.\<close>

definition digit_char :: "nat \<Rightarrow> char" where
  "digit_char d = ''0123456789'' ! d"

fun digits :: "nat \<Rightarrow> string" where
  "digits n = (if n < 10 then [digit_char n] else digits (n div 10) @ [digit_char (n mod 10)])"

declare digits.simps [simp del]

definition str :: "int \<Rightarrow> string" where
  "str i = (if i < 0 then CHR ''-'' # digits (nat (- i)) else digits (nat i))"

section \<open>smart\_port\_registry.py\<close>

subsection \<open>Data\<close>

record PortAllocation =
  port :: int
  project_name :: string
  plugin_name :: string
  status :: string
  allocated_at :: datetime
  last_seen :: datetime
  process_id :: "int option"
  debug_url :: "string option"

text \<open>
  \<^verbatim>\<open>self.registry\<close> is a dict from \<^verbatim>\<open>str(port)\<close> to the allocation. Every key the program
  writes or looks up is the decimal rendering of a port, and \<^verbatim>\<open>int(port_str)\<close> reads the
  port back, so a key is represented by the port it renders. The dict keeps insertion
  order: it is an association list, assignment is \<^const>\<open>AList.update\<close> (in place for a
  known key, appended for a new one) and \<^verbatim>\<open>del\<close> is \<^const>\<open>AList.delete\<close>.

  \<^verbatim>\<open>saved\<close> is the content of the registry file: \<^verbatim>\<open>_save_registry\<close> copies the dict there.
\<close>

type_synonym registry = "(int \<times> PortAllocation) list"

record SmartPortRegistry =
  registry :: registry
  saved :: registry

datatype lsof_result = Returned int | Raised

text \<open>
  What a call reads from outside: the clock and, for each port, how the \<^verbatim>\<open>lsof -i :port\<close>
  subprocess ends (its return code, or an exception such as a timeout or a missing
  binary).
\<close>

record environment =
  now :: datetime
  lsof :: "int \<Rightarrow> lsof_result"

definition port_ranges :: "string \<Rightarrow> (int \<times> int) option" where
  "port_ranges port_type =
     (if port_type = ''debug'' then Some (9230, 9250)
      else if port_type = ''dev_server'' then Some (3001, 3020)
      else if port_type = ''vite'' then Some (5173, 5180)
      else if port_type = ''webpack'' then Some (8080, 8090)
      else if port_type = ''cep_legacy'' then Some (7002, 7010)
      else None)"

definition reserved_ports :: "int list" where
  "reserved_ports = [9230, 9231, 7002]"

subsection \<open>Operations\<close>

definition save_registry :: "SmartPortRegistry \<Rightarrow> SmartPortRegistry" where
  "save_registry self = self\<lparr>saved := registry self\<rparr>"

definition is_port_actually_in_use :: "environment \<Rightarrow> int \<Rightarrow> bool" where
  "is_port_actually_in_use env p =
     (case lsof env p of Returned returncode \<Rightarrow> returncode = 0 | Raised \<Rightarrow> False)"

definition stale_ports :: "environment \<Rightarrow> registry \<Rightarrow> int list" where
  "stale_ports env reg =
     map fst (filter (\<lambda>(p, allocation).
        now env - allocated_at allocation > timedelta_hours 24
        \<and> \<not> is_port_actually_in_use env p) reg)"

fun delete_all :: "int list \<Rightarrow> registry \<Rightarrow> registry" where
  "delete_all [] reg = reg"
| "delete_all (p # ps) reg = delete_all ps (AList.delete p reg)"

definition cleanup_stale_allocations :: "environment \<Rightarrow> SmartPortRegistry \<Rightarrow> SmartPortRegistry" where
  "cleanup_stale_allocations env self =
     (let stale = stale_ports env (registry self);
          self1 = self\<lparr>registry := delete_all stale (registry self)\<rparr>
      in if stale \<noteq> [] then save_registry self1 else self1)"

definition can_allocate_port :: "environment \<Rightarrow> SmartPortRegistry \<Rightarrow> int \<Rightarrow> bool \<times> SmartPortRegistry" where
  "can_allocate_port env self p =
     (if p \<in> set reserved_ports then (False, self)
      else case map_of (registry self) p of
        None \<Rightarrow> (\<not> is_port_actually_in_use env p, self)
      | Some allocation \<Rightarrow>
          if status allocation \<in> set [''active'', ''reserved''] then
            if is_port_actually_in_use env p then (False, self)
            else (\<not> is_port_actually_in_use env p,
                  self\<lparr>registry := AList.update p (allocation\<lparr>status := ''available''\<rparr>) (registry self)\<rparr>)
          else (\<not> is_port_actually_in_use env p, self))"

definition register_allocation ::
  "environment \<Rightarrow> SmartPortRegistry \<Rightarrow> int \<Rightarrow> string \<Rightarrow> string \<Rightarrow> SmartPortRegistry" where
  "register_allocation env self p project plugin =
     (let allocation = \<lparr>port = p, project_name = project, plugin_name = plugin,
                         status = ''reserved'', allocated_at = now env, last_seen = now env,
                         process_id = None,
                         debug_url = Some (''http://localhost:'' @ str p)\<rparr>
      in save_registry (self\<lparr>registry := AList.update p allocation (registry self)\<rparr>))"

fun scan_range ::
  "environment \<Rightarrow> SmartPortRegistry \<Rightarrow> string \<Rightarrow> string \<Rightarrow> int list
     \<Rightarrow> int option \<times> SmartPortRegistry" where
  "scan_range env self project plugin [] = (None, self)"
| "scan_range env self project plugin (p # ps) =
     (case can_allocate_port env self p of
        (True, self1) \<Rightarrow> (Some p, register_allocation env self1 p project plugin)
      | (False, self1) \<Rightarrow> scan_range env self1 project plugin ps)"

text \<open>
  \<^verbatim>\<open>preferred_port\<close> is an \<^verbatim>\<open>Optional[int]\<close> tested for truth: \<^verbatim>\<open>None\<close> and \<^verbatim>\<open>0\<close> both skip
  the first branch, and \<^verbatim>\<open>and\<close> does not evaluate \<^verbatim>\<open>_can_allocate_port\<close> then. A result of
  \<^verbatim>\<open>None\<close> is the program's "no port available".
\<close>

definition allocate_port ::
  "environment \<Rightarrow> SmartPortRegistry \<Rightarrow> string \<Rightarrow> string \<Rightarrow> int option \<Rightarrow> string
     \<Rightarrow> int option \<times> SmartPortRegistry" where
  "allocate_port env self project plugin preferred_port port_type =
     (let self1 = cleanup_stale_allocations env self;
          (start_port, end_port) = (case port_ranges port_type of Some r \<Rightarrow> r | None \<Rightarrow> (9230, 9250));
          ports = [start_port..end_port]
      in if preferred_port = None \<or> preferred_port = Some 0
         then scan_range env self1 project plugin ports
         else if fst (can_allocate_port env self1 (the preferred_port))
         then (preferred_port,
               register_allocation env (snd (can_allocate_port env self1 (the preferred_port)))
                 (the preferred_port) project plugin)
         else scan_range env (snd (can_allocate_port env self1 (the preferred_port)))
                project plugin ports)"

text \<open>
  \<^verbatim>\<open>project_name\<close> of \<^verbatim>\<open>release_port\<close> defaults to \<^verbatim>\<open>None\<close> and is tested for truth, so
  \<^verbatim>\<open>None\<close> and the empty string both switch the ownership check off.
\<close>

definition truthy :: "string option \<Rightarrow> bool" where
  "truthy s = (s \<noteq> None \<and> s \<noteq> Some [])"

definition release_port ::
  "SmartPortRegistry \<Rightarrow> int \<Rightarrow> string option \<Rightarrow> bool \<times> SmartPortRegistry" where
  "release_port self p project =
     (case map_of (registry self) p of
        Some allocation \<Rightarrow>
          if truthy project \<and> Some (project_name allocation) \<noteq> project then (False, self)
          else (True, save_registry (self\<lparr>registry := AList.delete p (registry self)\<rparr>))
      | None \<Rightarrow> (False, self))"



section \<open>efficient\_localhost\_validator.py\<close>

text \<open>
  A validation result is the dict that \<^verbatim>\<open>validate_port\<close> builds; \<^verbatim>\<open>result_port\<close> and
  \<^verbatim>\<open>result_plugin_name\<close> are its keys \<^verbatim>\<open>'port'\<close> and \<^verbatim>\<open>'plugin_name'\<close>, and \<^verbatim>\<open>plugin_title\<close>
  is \<^verbatim>\<open>None\<close> when the key is absent. \<^verbatim>\<open>self._cache\<close> is keyed by \<^verbatim>\<open>str(port)\<close>, represented by
  the port as for the registry; \<^verbatim>\<open>cache_file\<close> is the content of the cache file, which
  \<^verbatim>\<open>_save_cache\<close> overwrites with the dict.

  The two probes of \<^verbatim>\<open>validate_port\<close> are given by what they come back with. The socket
  probe returns the code of \<^verbatim>\<open>connect_ex\<close> or raises. The request to \<^verbatim>\<open>/json\<close> raises
  \<^verbatim>\<open>HTTPError\<close>, \<^verbatim>\<open>URLError\<close> or another exception, or its body fails in \<^verbatim>\<open>json.loads\<close>, or it
  parses to a value that cannot be iterated, or to a sequence of elements; an element is
  an object with an optional string title, or one on which \<^verbatim>\<open>.get\<close> or \<^verbatim>\<open>in\<close> raises. Exceptions
  carry their text.
\<close>

record validation_result =
  result_port :: int
  result_plugin_name :: "string option"
  available :: bool
  reachable :: bool
  is_plugin :: bool
  error :: "string option"
  timestamp :: datetime
  from_cache :: bool
  plugin_title :: "string option"

type_synonym validation_cache = "(int \<times> validation_result) list"

record EfficientLocalhostValidator =
  cache :: validation_cache
  cache_file :: validation_cache

definition cache_duration :: int where
  "cache_duration = 300"

datatype socket_outcome = Connect_ex int | Socket_exception string

datatype target = Target "string option" | Malformed_target string

datatype urlopen_outcome =
    HTTPError int
  | URLError string
  | Other_exception string
  | JSONDecodeError string
  | Not_iterable string
  | Targets "target list"

definition save_cache :: "EfficientLocalhostValidator \<Rightarrow> EfficientLocalhostValidator" where
  "save_cache self = self\<lparr>cache_file := cache self\<rparr>"

definition is_cache_valid :: "EfficientLocalhostValidator \<Rightarrow> datetime \<Rightarrow> int \<Rightarrow> bool" where
  "is_cache_valid self t p =
     (case map_of (cache self) p of
        None \<Rightarrow> False
      | Some cached \<Rightarrow> t - timestamp cached < timedelta_seconds cache_duration)"

fun contains :: "string \<Rightarrow> string \<Rightarrow> bool" where
  "contains needle [] = (needle = [])"
| "contains needle (c # cs) = (prefix needle (c # cs) \<or> contains needle cs)"

fun check_targets :: "string option \<Rightarrow> target list \<Rightarrow> string + string option" where
  "check_targets name [] = Inr None"
| "check_targets name (Malformed_target e # targets) = Inl e"
| "check_targets name (Target t # targets) =
     (let title = (case t of None \<Rightarrow> [] | Some s \<Rightarrow> s)
      in if truthy name \<and> contains (the name) title then Inr (Some title)
         else if contains ''CEP'' title \<or> contains ''Extension'' title then Inr (Some title)
         else check_targets name targets)"

definition store :: "EfficientLocalhostValidator \<Rightarrow> int \<Rightarrow> validation_result
    \<Rightarrow> validation_result \<times> EfficientLocalhostValidator" where
  "store self p result = (result, save_cache (self\<lparr>cache := AList.update p result (cache self)\<rparr>))"

definition validate_port ::
  "EfficientLocalhostValidator \<Rightarrow> datetime \<Rightarrow> socket_outcome \<Rightarrow> urlopen_outcome
     \<Rightarrow> int \<Rightarrow> string option \<Rightarrow> bool \<Rightarrow> validation_result \<times> EfficientLocalhostValidator" where
  "validate_port self t sock response p name force =
     (case (if \<not> force \<and> is_cache_valid self t p then map_of (cache self) p else None) of
        Some cached \<Rightarrow>
          (cached\<lparr>from_cache := True\<rparr>,
           self\<lparr>cache := AList.update p (cached\<lparr>from_cache := True\<rparr>) (cache self)\<rparr>)
      | None \<Rightarrow>
        let result = \<lparr>result_port = p, result_plugin_name = name, available = False,
                       reachable = False, is_plugin = False, error = None, timestamp = t,
                       from_cache = False, plugin_title = None\<rparr>
        in case sock of
             Socket_exception e \<Rightarrow> store self p (result\<lparr>error := Some (''Socket error: '' @ e)\<rparr>)
           | Connect_ex connection_result \<Rightarrow>
               if connection_result \<noteq> 0
               then store self p (result\<lparr>error := Some ''Port not open''\<rparr>)
               else (case response of
                  HTTPError code \<Rightarrow>
                    store self p (result\<lparr>error := Some (''HTTP error: '' @ str code)\<rparr>)
                | URLError reason \<Rightarrow>
                    store self p (result\<lparr>error := Some (''URL error: '' @ reason)\<rparr>)
                | Other_exception e \<Rightarrow>
                    store self p (result\<lparr>error := Some (''Unexpected error: '' @ e)\<rparr>)
                | JSONDecodeError e \<Rightarrow>
                    store self p (result\<lparr>error := Some (''Unexpected error: '' @ e)\<rparr>)
                | Not_iterable e \<Rightarrow>
                    store self p (result\<lparr>reachable := True, available := True,
                                         error := Some (''Unexpected error: '' @ e)\<rparr>)
                | Targets targets \<Rightarrow>
                    (case check_targets name targets of
                       Inl e \<Rightarrow>
                         store self p (result\<lparr>reachable := True, available := True,
                                              error := Some (''Unexpected error: '' @ e)\<rparr>)
                     | Inr None \<Rightarrow>
                         store self p (result\<lparr>reachable := True, available := True\<rparr>)
                     | Inr (Some title) \<Rightarrow>
                         store self p (result\<lparr>reachable := True, available := True,
                                              is_plugin := True, plugin_title := Some title\<rparr>))))"

section \<open>plugin\_health\_check.py\<close>

record PluginHealthChecker =
  checker_plugin_name :: string
  debug_port :: int
  dev_port :: int
  max_retries :: int


text \<open>
  \<^verbatim>\<open>check_plugin_loaded\<close> ends in one of five \<^verbatim>\<open>return\<close> statements, each with its own
  message; all but the last name the port the plugin was found on. \<^const>\<open>True\<close> is returned
  by "loaded correctly" and "loaded", the target is \<^verbatim>\<open>None\<close> only for "not found", and the
  lower-cased message contains \<^verbatim>\<open>page failed\<close> only for "loaded on port ... but page failed".
\<close>

datatype plugin_check =
    Loaded_correctly int
  | Connection_refused int
  | Page_failed int
  | Loaded int
  | Not_found

fun plugin_ok :: "plugin_check \<Rightarrow> bool" where
  "plugin_ok (Loaded_correctly p) = True"
| "plugin_ok (Loaded p) = True"
| "plugin_ok (Connection_refused p) = False"
| "plugin_ok (Page_failed p) = False"
| "plugin_ok Not_found = False"

fun mentions_page_failed :: "plugin_check \<Rightarrow> bool" where
  "mentions_page_failed (Page_failed p) = True"
| "mentions_page_failed c = False"

fun found_on :: "plugin_check \<Rightarrow> int option" where
  "found_on (Loaded_correctly p) = Some p"
| "found_on (Connection_refused p) = Some p"
| "found_on (Page_failed p) = Some p"
| "found_on (Loaded p) = Some p"
| "found_on Not_found = None"

text \<open>
  What the checker calls outside itself acts on a world \<^typ>\<open>'w\<close>: the two probes (the HTTP
  request to the dev server with its message, the scan of the debug ports), the three
  recovery actions, which return whether they succeeded, and \<^verbatim>\<open>time.sleep\<close>.
\<close>

record 'w collaborators =
  probe_dev_server :: "'w \<Rightarrow> (bool \<times> string) \<times> 'w"
  probe_plugin_loaded :: "'w \<Rightarrow> plugin_check \<times> 'w"
  restart_dev_server :: "'w \<Rightarrow> bool \<times> 'w"
  reload_plugin_panel :: "'w \<Rightarrow> bool \<times> 'w"
  trigger_premiere_reload :: "'w \<Rightarrow> bool \<times> 'w"
  sleep :: "nat \<Rightarrow> 'w \<Rightarrow> 'w"

text \<open>
  The lines the checker prints, in order. A run of the checker is the checker object, the
  world and what has been printed so far.
\<close>

datatype message =
    Performing_health_check
  | Dev_server_message string
  | Plugin_message plugin_check
  | Found_plugin_on_port int int
  | Starting_auto_recovery
  | No_recovery_needed
  | Step_1_restarting_dev_server
  | Failed_to_restart_dev_server
  | Step_2_reloading_plugin_panel
  | Recovered_via_panel_reload
  | Step_3_reloading_via_premiere
  | Recovered_via_premiere_reload
  | Auto_recovery_failed
  | Plugin_is_healthy
  | Debug_at int
  | Plugin_unhealthy_attempt int int
  | Waiting_before_retry
  | Failed_after_attempts int

record 'w run =
  checker :: PluginHealthChecker
  world :: 'w
  printed :: "message list"

record health =
  healthy :: bool
  dev_server_ok :: bool
  dev_server_message :: string
  plugin_loaded :: plugin_check

definition print :: "message \<Rightarrow> 'w run \<Rightarrow> 'w run" where
  "print m r = r\<lparr>printed := printed r @ [m]\<rparr>"

definition act :: "('w \<Rightarrow> 'a \<times> 'w) \<Rightarrow> 'w run \<Rightarrow> 'a \<times> 'w run" where
  "act f r = (fst (f (world r)), r\<lparr>world := snd (f (world r))\<rparr>)"

definition time_sleep :: "'w collaborators \<Rightarrow> nat \<Rightarrow> 'w run \<Rightarrow> 'w run" where
  "time_sleep c n r = r\<lparr>world := sleep c n (world r)\<rparr>"

definition check_dev_server :: "'w collaborators \<Rightarrow> 'w run \<Rightarrow> (bool \<times> string) \<times> 'w run" where
  "check_dev_server c r = act (probe_dev_server c) r"

definition check_plugin_loaded :: "'w collaborators \<Rightarrow> 'w run \<Rightarrow> plugin_check \<times> 'w run" where
  "check_plugin_loaded c r =
     (let (found, r1) = act (probe_plugin_loaded c) r
      in case found_on found of
           None \<Rightarrow> (found, r1)
         | Some p \<Rightarrow>
             if p \<noteq> debug_port (checker r1)
             then (found, (print (Found_plugin_on_port p (debug_port (checker r1))) r1)
                            \<lparr>checker := (checker r1)\<lparr>debug_port := p\<rparr>\<rparr>)
             else (found, r1))"

definition perform_health_check :: "'w collaborators \<Rightarrow> 'w run \<Rightarrow> health \<times> 'w run" where
  "perform_health_check c r =
     (let r1 = print Performing_health_check r;
          ((dev_ok, dev_msg), r2) = check_dev_server c r1;
          r3 = print (Dev_server_message dev_msg) r2;
          (plugin, r4) = check_plugin_loaded c r3;
          r5 = print (Plugin_message plugin) r4
      in (\<lparr>healthy = dev_ok \<and> plugin_ok plugin, dev_server_ok = dev_ok,
           dev_server_message = dev_msg, plugin_loaded = plugin\<rparr>, r5))"

text \<open>
  \<^verbatim>\<open>auto_recover\<close> returns from several places; \<open>premiere_step\<close> is the method from
  "Step 3" to its end and \<open>panel_step\<close> from the test before "Step 2" to its end.
\<close>

definition premiere_step :: "'w collaborators \<Rightarrow> 'w run \<Rightarrow> bool \<times> 'w run" where
  "premiere_step c r =
     (let r1 = print Step_3_reloading_via_premiere r;
          (reloaded, r2) = act (trigger_premiere_reload c) r1
      in if reloaded then
           (let (final_health, r3) = perform_health_check c (time_sleep c 5 r2)
            in if healthy final_health then (True, print Recovered_via_premiere_reload r3)
               else (False, print Auto_recovery_failed r3))
         else (False, print Auto_recovery_failed r2))"

definition panel_step :: "'w collaborators \<Rightarrow> health \<Rightarrow> 'w run \<Rightarrow> bool \<times> 'w run" where
  "panel_step c h r =
     (if \<not> plugin_ok (plugin_loaded h) \<or> mentions_page_failed (plugin_loaded h) then
        (let r1 = print Step_2_reloading_plugin_panel r;
             (reloaded, r2) = act (reload_plugin_panel c) r1
         in if reloaded then
              (let (plugin, r3) = check_plugin_loaded c (time_sleep c 3 r2)
               in if plugin_ok plugin then (True, print Recovered_via_panel_reload r3)
                  else premiere_step c r3)
            else premiere_step c r2)
      else (False, print Auto_recovery_failed r))"

definition auto_recover :: "'w collaborators \<Rightarrow> 'w run \<Rightarrow> bool \<times> 'w run" where
  "auto_recover c r =
     (let (h, r1) = perform_health_check c (print Starting_auto_recovery r)
      in if healthy h then (True, print No_recovery_needed r1)
         else if \<not> dev_server_ok h then
           (let (restarted, r2) = act (restart_dev_server c) (print Step_1_restarting_dev_server r1)
            in if \<not> restarted then (False, print Failed_to_restart_dev_server r2)
               else panel_step c h (time_sleep c 3 r2))
         else panel_step c h r1)"



text \<open>The \<^verbatim>\<open>Plugin unhealthy, attempt k/n\<close> lines among the printed ones, as pairs \<open>(k, n)\<close>.\<close>

fun unhealthy_attempts :: "message list \<Rightarrow> (int \<times> int) list" where
  "unhealthy_attempts [] = []"
| "unhealthy_attempts (Plugin_unhealthy_attempt k n # ms) = (k, n) # unhealthy_attempts ms"
| "unhealthy_attempts (m # ms) = unhealthy_attempts ms"

section \<open>Example inputs\<close>

definition example_allocation :: "int \<Rightarrow> string \<Rightarrow> datetime \<Rightarrow> datetime \<Rightarrow> PortAllocation" where
  "example_allocation p project t_alloc t_seen =
     \<lparr>port = p, project_name = project, plugin_name = ''panelA'', status = ''reserved'',
      allocated_at = t_alloc, last_seen = t_seen, process_id = None, debug_url = None\<rparr>"

definition example_registry :: SmartPortRegistry where
  "example_registry =
     \<lparr>registry = [(9240, example_allocation 9240 ''proj1'' 0 0),
                  (9241, example_allocation 9241 ''proj2'' 0 0)],
      saved = [(9240, example_allocation 9240 ''proj1'' 0 0),
               (9241, example_allocation 9241 ''proj2'' 0 0)]\<rparr>"

definition example_environment :: environment where
  "example_environment =
     \<lparr>now = timedelta_hours 25, lsof = (\<lambda>p. if p = 9241 then Returned 0 else Returned 1)\<rparr>"

definition aged_registry :: SmartPortRegistry where
  "aged_registry =
     \<lparr>registry = [(9240, example_allocation 9240 ''proj1'' 0 (timedelta_hours 25)),
                  (9241, example_allocation 9241 ''proj2'' 0 0),
                  (9242, example_allocation 9242 ''proj3'' (timedelta_hours 2) (timedelta_hours 2))],
      saved = []\<rparr>"

definition quiet_environment :: environment where
  "quiet_environment = \<lparr>now = 0, lsof = (\<lambda>p. Returned 1)\<rparr>"

definition busy_environment :: environment where
  "busy_environment =
     \<lparr>now = 0, lsof = (\<lambda>p. if 9230 \<le> p \<and> p \<le> 9250 then Returned 0 else Returned 1)\<rparr>"

definition bound_9232_environment :: environment where
  "bound_9232_environment = \<lparr>now = 0, lsof = (\<lambda>p. if p = 9232 then Returned 0 else Returned 1)\<rparr>"

definition empty_registry :: SmartPortRegistry where
  "empty_registry = \<lparr>registry = [], saved = []\<rparr>"

definition empty_validator :: EfficientLocalhostValidator where
  "empty_validator = \<lparr>cache = [], cache_file = []\<rparr>"



definition first_validation :: "validation_result \<times> EfficientLocalhostValidator" where
  "first_validation =
     validate_port empty_validator 0 (Connect_ex 0) (Targets [Target (Some ''CEP panel'')])
       9230 None False"

section \<open>Releasing a port\<close>

lemma map_of_delete_all:
  "map_of (delete_all ps reg) q = (if q \<in> set ps then None else map_of reg q)"
  by (induction ps arbitrary: reg) (auto simp: delete_conv')

text \<open>
  Claim C10. For a port that has an allocation, \<^verbatim>\<open>release_port(port)\<close> without a project
  returns \<^verbatim>\<open>True\<close> whoever owns the port, and the port has no allocation afterwards, in
  the dict and in the saved file. The ownership check only applies to a call that supplies
  a (non-empty) project name: such a call is refused exactly when the name differs from
  the owner's.
\<close>

theorem release_port_without_project:
  assumes "map_of (registry self) p = Some allocation"
  shows "fst (release_port self p None)
       \<and> map_of (registry (snd (release_port self p None))) p = None
       \<and> map_of (saved (snd (release_port self p None))) p = None
       \<and> (\<forall>project. fst (release_port self p project)
             = (\<not> (truthy project \<and> project \<noteq> Some (project_name allocation))))"
  using assms by (auto simp: release_port_def save_registry_def truthy_def delete_conv')

theorem release_port_without_project_witness:
  "map_of (registry example_registry) 9241 = Some (example_allocation 9241 ''proj2'' 0 0)
   \<and> fst (release_port example_registry 9241 None)
   \<and> map_of (registry (snd (release_port example_registry 9241 None))) 9241 = None
   \<and> \<not> fst (release_port example_registry 9241 (Some ''proj1''))"
proof -
  have h: "map_of (registry example_registry) 9241 = Some (example_allocation 9241 ''proj2'' 0 0)"
    by (simp add: example_registry_def)
  have "project_name (example_allocation 9241 ''proj2'' 0 0) = ''proj2''"
    by (simp add: example_allocation_def)
  with release_port_without_project [OF h] h show ?thesis
    by (simp add: truthy_def)
qed

text \<open>
  Claim C8. \<^verbatim>\<open>release_port(port, project_name)\<close> returns \<^verbatim>\<open>False\<close> and changes nothing, in
  the dict or in the file, when the port has no allocation, and when a project name is
  supplied (the override is a call without one) that differs from the owner's. A release
  that returns \<^verbatim>\<open>True\<close> removes the allocation of that port and no other, saves the dict,
  and releasing the same port again returns \<^verbatim>\<open>False\<close> and changes nothing.
\<close>

theorem release_port_refusals_and_effect:
  "(map_of (registry self) p = None \<longrightarrow> release_port self p project = (False, self))
   \<and> (map_of (registry self) p = Some allocation \<and> truthy project
        \<and> project \<noteq> Some (project_name allocation)
      \<longrightarrow> release_port self p project = (False, self))
   \<and> (release_port self p project = (True, self')
      \<longrightarrow> map_of (registry self') p = None
        \<and> (\<forall>q. q \<noteq> p \<longrightarrow> map_of (registry self') q = map_of (registry self) q)
        \<and> saved self' = registry self'
        \<and> release_port self' p project' = (False, self'))"
proof (intro conjI impI)
  assume "map_of (registry self) p = None"
  then show "release_port self p project = (False, self)"
    by (simp add: release_port_def)
next
  assume "map_of (registry self) p = Some allocation \<and> truthy project
            \<and> project \<noteq> Some (project_name allocation)"
  then show "release_port self p project = (False, self)"
    by (auto simp: release_port_def)
next
  assume r: "release_port self p project = (True, self')"
  then have s: "self' = save_registry (self\<lparr>registry := AList.delete p (registry self)\<rparr>)"
    by (auto simp: release_port_def split: option.splits if_splits)
  show gone: "map_of (registry self') p = None"
    by (simp add: s save_registry_def delete_conv')
  show "\<forall>q. q \<noteq> p \<longrightarrow> map_of (registry self') q = map_of (registry self) q"
    by (simp add: s save_registry_def delete_conv')
  show "saved self' = registry self'"
    by (simp add: s save_registry_def)
  show "release_port self' p project' = (False, self')"
    using gone by (simp add: release_port_def)
qed

theorem release_port_refusals_and_effect_witness:
  "map_of (registry example_registry) 9300 = None
   \<and> release_port example_registry 9300 (Some ''proj1'') = (False, example_registry)
   \<and> map_of (registry example_registry) 9241 = Some (example_allocation 9241 ''proj2'' 0 0)
   \<and> truthy (Some ''proj1'')
   \<and> Some ''proj1'' \<noteq> Some (project_name (example_allocation 9241 ''proj2'' 0 0))
   \<and> release_port example_registry 9241 (Some ''proj1'') = (False, example_registry)
   \<and> release_port example_registry 9240 (Some ''proj1'')
       = (True, \<lparr>registry = [(9241, example_allocation 9241 ''proj2'' 0 0)],
                 saved = [(9241, example_allocation 9241 ''proj2'' 0 0)]\<rparr>)
   \<and> map_of [(9241::int, example_allocation 9241 ''proj2'' 0 0)] 9240 = None
   \<and> map_of [(9241::int, example_allocation 9241 ''proj2'' 0 0)] 9241
       = map_of (registry example_registry) 9241
   \<and> release_port \<lparr>registry = [(9241, example_allocation 9241 ''proj2'' 0 0)],
                     saved = [(9241, example_allocation 9241 ''proj2'' 0 0)]\<rparr> 9240 (Some ''proj1'')
       = (False, \<lparr>registry = [(9241, example_allocation 9241 ''proj2'' 0 0)],
                  saved = [(9241, example_allocation 9241 ''proj2'' 0 0)]\<rparr>)"
proof -
  let ?after = "\<lparr>registry = [(9241, example_allocation 9241 ''proj2'' 0 0)],
                saved = [(9241, example_allocation 9241 ''proj2'' 0 0)]\<rparr>"
  have h1: "map_of (registry example_registry) 9300 = None"
    by (simp add: example_registry_def)
  have h2: "map_of (registry example_registry) 9241 = Some (example_allocation 9241 ''proj2'' 0 0)
            \<and> truthy (Some ''proj1'')
            \<and> Some ''proj1'' \<noteq> Some (project_name (example_allocation 9241 ''proj2'' 0 0))"
    by (simp add: example_registry_def example_allocation_def truthy_def)
  have h3: "release_port example_registry 9240 (Some ''proj1'') = (True, ?after)"
    by (simp add: release_port_def example_registry_def example_allocation_def truthy_def
        save_registry_def)
  note a = release_port_refusals_and_effect
             [of example_registry 9300 "Some ''proj1''" "example_allocation 9241 ''proj2'' 0 0"
                 example_registry None]
  note b = release_port_refusals_and_effect
             [of example_registry 9241 "Some ''proj1''" "example_allocation 9241 ''proj2'' 0 0"
                 example_registry None]
  note c = release_port_refusals_and_effect
             [of example_registry 9240 "Some ''proj1''" "example_allocation 9240 ''proj1'' 0 0"
                 ?after "Some ''proj1''"]
  from a h1 have r1: "release_port example_registry 9300 (Some ''proj1'') = (False, example_registry)"
    by blast
  from b h2 have r2: "release_port example_registry 9241 (Some ''proj1'') = (False, example_registry)"
    by blast
  from c h3 have c3: "map_of (registry ?after) 9240 = None
      \<and> (\<forall>q. q \<noteq> 9240 \<longrightarrow> map_of (registry ?after) q = map_of (registry example_registry) q)
      \<and> saved ?after = registry ?after
      \<and> release_port ?after 9240 (Some ''proj1'') = (False, ?after)"
    by blast
  then have r3: "release_port ?after 9240 (Some ''proj1'') = (False, ?after)"
    by blast
  have r4: "map_of [(9241::int, example_allocation 9241 ''proj2'' 0 0)] 9241
              = map_of (registry example_registry) 9241"
    by (simp add: example_registry_def)
  from h1 h2 h3 r1 r2 r3 r4 show ?thesis by simp
qed

section \<open>Cleaning up stale allocations\<close>

lemma registry_cleanup_stale_allocations:
  "registry (cleanup_stale_allocations env self)
     = delete_all (stale_ports env (registry self)) (registry self)"
  by (simp add: cleanup_stale_allocations_def Let_def save_registry_def)

lemma stale_ports_iff:
  assumes "distinct (map fst reg)"
  shows "p \<in> set (stale_ports env reg) \<longleftrightarrow>
         (\<exists>a. map_of reg p = Some a \<and> now env - allocated_at a > timedelta_hours 24
              \<and> \<not> is_port_actually_in_use env p)"
  using assms by (force simp: stale_ports_def)

text \<open>
  Claim C6, as stated, fails: the sweep reads \<^verbatim>\<open>allocated_at\<close>, not \<^verbatim>\<open>last_seen\<close>. At hour 25,
  port 9240 was allocated at hour 0 and last seen at hour 25, and \<^verbatim>\<open>lsof\<close> reports it unbound:
  the allocation is removed although it was seen less than 24 hours ago.
\<close>

theorem cleanup_last_seen_counterexample:
  "map_of (registry aged_registry) 9240
     = Some (example_allocation 9240 ''proj1'' 0 (timedelta_hours 25))
   \<and> \<not> (now example_environment
            - last_seen (example_allocation 9240 ''proj1'' 0 (timedelta_hours 25))
          > timedelta_hours 24)
   \<and> map_of (registry (cleanup_stale_allocations example_environment aged_registry)) 9240 = None"
  by (simp add: aged_registry_def example_environment_def example_allocation_def
      cleanup_stale_allocations_def stale_ports_def is_port_actually_in_use_def
      timedelta_hours_def save_registry_def)

text \<open>
  Claim C6, amended. The sweep removes an allocation exactly when its \<^verbatim>\<open>allocated_at\<close> stamp
  is more than 24 hours old and the \<^verbatim>\<open>lsof\<close> probe does not report the port in use. So an
  allocation whose port the probe reports in use is kept however old it is, and every
  allocation that survives is the one that was there.
\<close>

theorem cleanup_stale_allocations_effect:
  assumes "distinct (map fst (registry self))"
  shows "map_of (registry (cleanup_stale_allocations env self)) p =
           (case map_of (registry self) p of
              None \<Rightarrow> None
            | Some a \<Rightarrow>
                if now env - allocated_at a > timedelta_hours 24
                   \<and> \<not> is_port_actually_in_use env p
                then None else Some a)"
proof (cases "map_of (registry self) p")
  case None
  then show ?thesis
    by (simp add: registry_cleanup_stale_allocations map_of_delete_all)
next
  case (Some a)
  with stale_ports_iff [OF assms, of p env] show ?thesis
    by (simp add: registry_cleanup_stale_allocations map_of_delete_all)
qed

theorem cleanup_stale_allocations_effect_witness:
  "distinct (map fst (registry aged_registry))
   \<and> map_of (registry (cleanup_stale_allocations example_environment aged_registry)) 9240 = None
   \<and> map_of (registry (cleanup_stale_allocations example_environment aged_registry)) 9241
       = Some (example_allocation 9241 ''proj2'' 0 0)
   \<and> map_of (registry (cleanup_stale_allocations example_environment aged_registry)) 9242
       = Some (example_allocation 9242 ''proj3'' (timedelta_hours 2) (timedelta_hours 2))"
proof -
  have d: "distinct (map fst (registry aged_registry))"
    by (simp add: aged_registry_def)
  note e = cleanup_stale_allocations_effect [OF d, of example_environment]
  have "map_of (registry (cleanup_stale_allocations example_environment aged_registry)) 9240 = None"
    using e [of 9240]
    by (simp add: aged_registry_def example_environment_def example_allocation_def
        is_port_actually_in_use_def timedelta_hours_def)
  moreover
  have "map_of (registry (cleanup_stale_allocations example_environment aged_registry)) 9241
          = Some (example_allocation 9241 ''proj2'' 0 0)"
    using e [of 9241]
    by (simp add: aged_registry_def example_environment_def example_allocation_def
        is_port_actually_in_use_def timedelta_hours_def)
  moreover
  have "map_of (registry (cleanup_stale_allocations example_environment aged_registry)) 9242
          = Some (example_allocation 9242 ''proj3'' (timedelta_hours 2) (timedelta_hours 2))"
    using e [of 9242]
    by (simp add: aged_registry_def example_environment_def example_allocation_def
        is_port_actually_in_use_def timedelta_hours_def)
  ultimately show ?thesis using d by simp
qed

section \<open>Allocating a port\<close>

lemma fst_can_allocate_port:
  "fst (can_allocate_port env self p)
     = (p \<notin> set reserved_ports \<and> \<not> is_port_actually_in_use env p)"
  by (simp add: can_allocate_port_def split: option.splits)

lemma fst_scan_range:
  "fst (scan_range env self project plugin ps)
     = find (\<lambda>p. p \<notin> set reserved_ports \<and> \<not> is_port_actually_in_use env p) ps"
proof (induction ps arbitrary: self)
  case Nil
  show ?case by simp
next
  case (Cons p ps)
  obtain b self1 where c: "can_allocate_port env self p = (b, self1)"
    by (cases "can_allocate_port env self p")
  with fst_can_allocate_port [of env self p]
  have b: "b = (p \<notin> set reserved_ports \<and> \<not> is_port_actually_in_use env p)"
    by simp
  show ?case
  proof (cases b)
    case True
    with b c show ?thesis by simp
  next
    case False
    with b c Cons.IH [of self1] show ?thesis by auto
  qed
qed

lemma fst_allocate_port:
  "fst (allocate_port env self project plugin preferred_port port_type)
     = (if preferred_port \<noteq> None \<and> preferred_port \<noteq> Some 0
           \<and> the preferred_port \<notin> set reserved_ports
           \<and> \<not> is_port_actually_in_use env (the preferred_port)
        then preferred_port
        else find (\<lambda>p. p \<notin> set reserved_ports \<and> \<not> is_port_actually_in_use env p)
               [fst (case port_ranges port_type of Some r \<Rightarrow> r | None \<Rightarrow> (9230, 9250))
                ..snd (case port_ranges port_type of Some r \<Rightarrow> r | None \<Rightarrow> (9230, 9250))])"
  by (simp add: allocate_port_def Let_def split_beta fst_can_allocate_port fst_scan_range)

lemma find_upto_Some_iff:
  "find P [lo..hi] = Some p \<longleftrightarrow>
     lo \<le> p \<and> p \<le> hi \<and> P p \<and> (\<forall>q. lo \<le> q \<and> q < p \<longrightarrow> \<not> P q)"
proof (induction lo hi rule: upto.induct)
  case (1 i j)
  show ?case
  proof (cases "i \<le> j")
    case False
    then show ?thesis by auto
  next
    case True
    then have u: "[i..j] = i # [i + 1..j]" by (simp add: upto_rec1)
    show ?thesis
    proof (cases "P i")
      case True
      with u \<open>i \<le> j\<close> show ?thesis by (auto simp: not_less)
    next
      case False
      have "(\<forall>q. i \<le> q \<and> q < p \<longrightarrow> \<not> P q) \<longleftrightarrow> (\<forall>q. i + 1 \<le> q \<and> q < p \<longrightarrow> \<not> P q)"
      proof
        assume "\<forall>q. i \<le> q \<and> q < p \<longrightarrow> \<not> P q"
        then show "\<forall>q. i + 1 \<le> q \<and> q < p \<longrightarrow> \<not> P q" by auto
      next
        assume a: "\<forall>q. i + 1 \<le> q \<and> q < p \<longrightarrow> \<not> P q"
        show "\<forall>q. i \<le> q \<and> q < p \<longrightarrow> \<not> P q"
        proof (intro allI impI)
          fix q assume "i \<le> q \<and> q < p"
          then have "q = i \<or> (i + 1 \<le> q \<and> q < p)" by arith
          with a False show "\<not> P q" by blast
        qed
      qed
      moreover have "find P [i..j] = find P [i + 1..j]" using u False by simp
      moreover have "P p \<Longrightarrow> i \<le> p \<longleftrightarrow> i + 1 \<le> p"
        using False by (cases "p = i") auto
      ultimately show ?thesis using "1.IH" [OF \<open>i \<le> j\<close>] by auto
    qed
  qed
qed

lemma find_upto_None_iff:
  "find P [lo..hi] = None \<longleftrightarrow> (\<forall>q. lo \<le> q \<and> q \<le> hi \<longrightarrow> \<not> P q)"
  by (auto simp: find_None_iff)

lemma register_allocation_effect:
  "map_of (registry (register_allocation env s p project plugin)) p
     = Some \<lparr>port = p, project_name = project, plugin_name = plugin, status = ''reserved'',
             allocated_at = now env, last_seen = now env, process_id = None,
             debug_url = Some (''http://localhost:'' @ str p)\<rparr>
   \<and> saved (register_allocation env s p project plugin)
       = registry (register_allocation env s p project plugin)"
  by (simp add: register_allocation_def Let_def save_registry_def update_conv')

lemma scan_range_registers:
  "scan_range env s project plugin ps = (Some p, s')
     \<Longrightarrow> \<exists>s1. s' = register_allocation env s1 p project plugin"
proof (induction ps arbitrary: s)
  case Nil
  then show ?case by simp
next
  case (Cons a ps)
  obtain b s1 where c: "can_allocate_port env s a = (b, s1)"
    by (cases "can_allocate_port env s a")
  show ?case
  proof (cases b)
    case True
    with c Cons.prems show ?thesis by auto
  next
    case False
    with c Cons.prems have "scan_range env s1 project plugin ps = (Some p, s')" by simp
    then show ?thesis by (rule Cons.IH)
  qed
qed

lemma allocate_port_registers:
  assumes "allocate_port env self project plugin preferred_port port_type = (Some p, self')"
  shows "\<exists>s1. self' = register_allocation env s1 p project plugin"
  using assms
  by (auto simp: allocate_port_def Let_def split_beta split: if_splits
      dest: scan_range_registers)

text \<open>
  Claim C3, amended. A port returned by \<^verbatim>\<open>allocate_port\<close> is never on the reserved list. When
  every port of the range of the port type is reserved or reported in use, and so is the
  preferred port if one is given (a preferred port is tried first, whether or not it lies
  in the range), \<^verbatim>\<open>allocate_port\<close> returns \<^verbatim>\<open>None\<close>.
\<close>

theorem allocate_port_never_reserved:
  "(fst (allocate_port env self project plugin preferred_port port_type) = Some p
      \<longrightarrow> p \<notin> set reserved_ports)
   \<and> ((case port_ranges port_type of Some r \<Rightarrow> r | None \<Rightarrow> (9230, 9250)) = (lo, hi)
       \<and> (\<forall>q. lo \<le> q \<and> q \<le> hi \<longrightarrow> q \<in> set reserved_ports \<or> is_port_actually_in_use env q)
       \<and> (\<forall>q. preferred_port = Some q
              \<longrightarrow> q = 0 \<or> q \<in> set reserved_ports \<or> is_port_actually_in_use env q)
      \<longrightarrow> fst (allocate_port env self project plugin preferred_port port_type) = None)"
proof (intro conjI impI)
  assume "fst (allocate_port env self project plugin preferred_port port_type) = Some p"
  then show "p \<notin> set reserved_ports"
    by (auto simp: fst_allocate_port find_Some_iff split: if_splits)
next
  assume h: "(case port_ranges port_type of Some r \<Rightarrow> r | None \<Rightarrow> (9230, 9250)) = (lo, hi)
       \<and> (\<forall>q. lo \<le> q \<and> q \<le> hi \<longrightarrow> q \<in> set reserved_ports \<or> is_port_actually_in_use env q)
       \<and> (\<forall>q. preferred_port = Some q
              \<longrightarrow> q = 0 \<or> q \<in> set reserved_ports \<or> is_port_actually_in_use env q)"
  then have "find (\<lambda>p. p \<notin> set reserved_ports \<and> \<not> is_port_actually_in_use env p) [lo..hi] = None"
    by (simp add: find_upto_None_iff)
  with h show "fst (allocate_port env self project plugin preferred_port port_type) = None"
    by (auto simp: fst_allocate_port)
qed

text \<open>
  Claim C3, as stated, fails when a preferred port outside the range is free: with every
  port of the debug range 9230..9250 reserved or in use, a call that prefers the free port
  9300 returns 9300 and not \<^verbatim>\<open>None\<close>.
\<close>

theorem allocate_port_preferred_counterexample:
  "port_ranges ''debug'' = Some (9230, 9250)
   \<and> filter (\<lambda>p. p \<notin> set reserved_ports \<and> \<not> is_port_actually_in_use busy_environment p)
        [9230..9250] = []
   \<and> fst (allocate_port busy_environment empty_registry ''proj1'' ''panelA'' (Some 9300) ''debug'')
       = Some 9300"
  by (simp add: fst_allocate_port port_ranges_def filter_empty_conv busy_environment_def
      is_port_actually_in_use_def reserved_ports_def)

theorem allocate_port_never_reserved_witness:
  "fst (allocate_port quiet_environment empty_registry ''proj1'' ''panelA'' (Some 9240) ''debug'')
     = Some 9240
   \<and> 9240 \<notin> set reserved_ports
   \<and> fst (allocate_port busy_environment empty_registry ''proj1'' ''panelA'' (Some 9235) ''debug'')
     = None"
proof -
  have a: "fst (allocate_port quiet_environment empty_registry ''proj1'' ''panelA'' (Some 9240) ''debug'')
             = Some 9240"
    by (simp add: fst_allocate_port quiet_environment_def is_port_actually_in_use_def
        reserved_ports_def)
  have b: "(case port_ranges ''debug'' of Some r \<Rightarrow> r | None \<Rightarrow> (9230, 9250)) = (9230, 9250)
       \<and> (\<forall>q. 9230 \<le> q \<and> q \<le> 9250
              \<longrightarrow> q \<in> set reserved_ports \<or> is_port_actually_in_use busy_environment q)
       \<and> (\<forall>q. Some 9235 = Some q
              \<longrightarrow> q = 0 \<or> q \<in> set reserved_ports \<or> is_port_actually_in_use busy_environment q)"
    by (simp add: port_ranges_def busy_environment_def is_port_actually_in_use_def)
  from allocate_port_never_reserved
         [of quiet_environment empty_registry "''proj1''" "''panelA''" "Some 9240" "''debug''"
             9240 9230 9250] a
  have "9240 \<notin> set reserved_ports" by blast
  moreover
  from allocate_port_never_reserved
         [of busy_environment empty_registry "''proj1''" "''panelA''" "Some 9235" "''debug''"
             0 9230 9250] b
  have "fst (allocate_port busy_environment empty_registry ''proj1'' ''panelA'' (Some 9235) ''debug'')
          = None" by blast
  ultimately show ?thesis using a by simp
qed


text \<open>
  Claim C2, as stated, fails. On an empty registry with nothing bound, a call that prefers
  9230 returns 9232: 9230 and 9231 are on the reserved list. The registry then holds 9232
  as \<^verbatim>\<open>reserved\<close> for \<^verbatim>\<open>panelA\<close>, and a second call for \<^verbatim>\<open>panelB\<close> returns 9232 again: a port held
  for another owner is skipped only while \<^verbatim>\<open>lsof\<close> reports it in use.
\<close>

theorem allocate_port_scenario_counterexample:
  "registry empty_registry = []
   \<and> \<not> is_port_actually_in_use quiet_environment 9230
   \<and> fst (allocate_port quiet_environment empty_registry ''proj1'' ''panelA'' (Some 9230) ''debug'')
       = Some 9232
   \<and> map_option plugin_name
        (map_of (registry (snd (allocate_port quiet_environment empty_registry
                                  ''proj1'' ''panelA'' (Some 9230) ''debug''))) 9232)
       = Some ''panelA''
   \<and> map_option status
        (map_of (registry (snd (allocate_port quiet_environment empty_registry
                                  ''proj1'' ''panelA'' (Some 9230) ''debug''))) 9232)
       = Some ''reserved''
   \<and> fst (allocate_port quiet_environment
            (snd (allocate_port quiet_environment empty_registry
                    ''proj1'' ''panelA'' (Some 9230) ''debug''))
            ''proj1'' ''panelB'' (Some 9230) ''debug'')
       = Some 9232"
proof -
  let ?first = "allocate_port quiet_environment empty_registry ''proj1'' ''panelA'' (Some 9230) ''debug''"
  have quiet: "\<And>p. \<not> is_port_actually_in_use quiet_environment p"
    by (simp add: quiet_environment_def is_port_actually_in_use_def)
  have r: "\<And>s plugin. fst (allocate_port quiet_environment s ''proj1'' plugin (Some 9230) ''debug'')
             = Some 9232"
    by (simp add: fst_allocate_port quiet port_ranges_def reserved_ports_def upto_rec1)
  then have "?first = (Some 9232, snd ?first)"
    by (metis prod.collapse)
  then obtain s1 where "snd ?first = register_allocation quiet_environment s1 9232 ''proj1'' ''panelA''"
    using allocate_port_registers by blast
  with register_allocation_effect [of quiet_environment s1 9232 "''proj1''" "''panelA''"]
  have "map_option plugin_name (map_of (registry (snd ?first)) 9232) = Some ''panelA''"
    and "map_option status (map_of (registry (snd ?first)) 9232) = Some ''reserved''"
    by simp_all
  with r quiet show ?thesis by (simp add: empty_registry_def)
qed

text \<open>
  Claim C2, amended. If a preferred port is given (and is not 0), is not reserved and is
  not reported in use by \<^verbatim>\<open>lsof\<close>, \<^verbatim>\<open>allocate_port\<close> returns it. Otherwise it returns the
  lowest port of the range of the port type that is neither reserved nor reported in use,
  and \<^verbatim>\<open>None\<close> exactly when there is none; who holds a port in the registry plays no part.
  The returned port is registered as \<^verbatim>\<open>reserved\<close> for the caller and the registry is saved.
\<close>

theorem allocate_port_choice:
  "(preferred_port = Some q \<and> q \<noteq> 0 \<and> q \<notin> set reserved_ports
      \<and> \<not> is_port_actually_in_use env q
     \<longrightarrow> fst (allocate_port env self project plugin preferred_port port_type) = Some q)
   \<and> ((\<forall>q. preferred_port = Some q
             \<longrightarrow> q = 0 \<or> q \<in> set reserved_ports \<or> is_port_actually_in_use env q)
       \<and> (case port_ranges port_type of Some r \<Rightarrow> r | None \<Rightarrow> (9230, 9250)) = (lo, hi)
     \<longrightarrow> (fst (allocate_port env self project plugin preferred_port port_type) = Some p
            \<longleftrightarrow> lo \<le> p \<and> p \<le> hi
                \<and> p \<notin> set reserved_ports \<and> \<not> is_port_actually_in_use env p
                \<and> (\<forall>r. lo \<le> r \<and> r < p
                       \<longrightarrow> r \<in> set reserved_ports \<or> is_port_actually_in_use env r))
         \<and> (fst (allocate_port env self project plugin preferred_port port_type) = None
            \<longleftrightarrow> (\<forall>r. lo \<le> r \<and> r \<le> hi
                       \<longrightarrow> r \<in> set reserved_ports \<or> is_port_actually_in_use env r)))
   \<and> (allocate_port env self project plugin preferred_port port_type = (Some p, self')
     \<longrightarrow> map_of (registry self') p
           = Some \<lparr>port = p, project_name = project, plugin_name = plugin,
                   status = ''reserved'', allocated_at = now env, last_seen = now env,
                   process_id = None, debug_url = Some (''http://localhost:'' @ str p)\<rparr>
         \<and> saved self' = registry self')"
proof (intro conjI impI)
  assume "preferred_port = Some q \<and> q \<noteq> 0 \<and> q \<notin> set reserved_ports
            \<and> \<not> is_port_actually_in_use env q"
  then show "fst (allocate_port env self project plugin preferred_port port_type) = Some q"
    by (simp add: fst_allocate_port)
next
  assume h: "(\<forall>q. preferred_port = Some q
                 \<longrightarrow> q = 0 \<or> q \<in> set reserved_ports \<or> is_port_actually_in_use env q)
       \<and> (case port_ranges port_type of Some r \<Rightarrow> r | None \<Rightarrow> (9230, 9250)) = (lo, hi)"
  then have f: "fst (allocate_port env self project plugin preferred_port port_type)
      = find (\<lambda>p. p \<notin> set reserved_ports \<and> \<not> is_port_actually_in_use env p) [lo..hi]"
    by (auto simp: fst_allocate_port)
  show "fst (allocate_port env self project plugin preferred_port port_type) = Some p
          \<longleftrightarrow> lo \<le> p \<and> p \<le> hi
              \<and> p \<notin> set reserved_ports \<and> \<not> is_port_actually_in_use env p
              \<and> (\<forall>r. lo \<le> r \<and> r < p
                     \<longrightarrow> r \<in> set reserved_ports \<or> is_port_actually_in_use env r)"
    unfolding f find_upto_Some_iff by blast
  show "fst (allocate_port env self project plugin preferred_port port_type) = None
          \<longleftrightarrow> (\<forall>r. lo \<le> r \<and> r \<le> hi
                     \<longrightarrow> r \<in> set reserved_ports \<or> is_port_actually_in_use env r)"
    unfolding f find_upto_None_iff by blast
next
  assume a: "allocate_port env self project plugin preferred_port port_type = (Some p, self')"
  then obtain s1 where s: "self' = register_allocation env s1 p project plugin"
    using allocate_port_registers by blast
  show "map_of (registry self') p
           = Some \<lparr>port = p, project_name = project, plugin_name = plugin,
                   status = ''reserved'', allocated_at = now env, last_seen = now env,
                   process_id = None, debug_url = Some (''http://localhost:'' @ str p)\<rparr>"
    unfolding s using register_allocation_effect by blast
  show "saved self' = registry self'"
    unfolding s using register_allocation_effect by blast
qed

theorem allocate_port_choice_witness:
  "fst (allocate_port quiet_environment empty_registry ''proj1'' ''panelA'' (Some 9240) ''debug'')
     = Some 9240
   \<and> fst (allocate_port quiet_environment empty_registry ''proj1'' ''panelA'' (Some 9230) ''debug'')
     = Some 9232
   \<and> fst (allocate_port bound_9232_environment empty_registry ''proj1'' ''panelB'' (Some 9230) ''debug'')
     = Some 9233
   \<and> map_option status
        (map_of (registry (snd (allocate_port quiet_environment empty_registry
                                  ''proj1'' ''panelA'' (Some 9240) ''debug''))) 9240)
     = Some ''reserved''"
proof -
  let ?a = "allocate_port quiet_environment empty_registry ''proj1'' ''panelA'' (Some 9240) ''debug''"
  have quiet: "\<And>p. \<not> is_port_actually_in_use quiet_environment p"
    by (simp add: quiet_environment_def is_port_actually_in_use_def)
  have rng: "(case port_ranges ''debug'' of Some r \<Rightarrow> r | None \<Rightarrow> (9230, 9250)) = (9230, 9250)"
    by (simp add: port_ranges_def)
  have h1: "Some 9240 = Some (9240::int) \<and> (9240::int) \<noteq> 0 \<and> 9240 \<notin> set reserved_ports
              \<and> \<not> is_port_actually_in_use quiet_environment 9240"
    by (simp add: quiet reserved_ports_def)
  from allocate_port_choice
         [of "Some 9240" 9240 quiet_environment empty_registry "''proj1''" "''panelA''" "''debug''"
             9230 9250 9240 "snd ?a"] h1
  have r1: "fst ?a = Some 9240"
    and r1': "?a = (Some 9240, snd ?a) \<longrightarrow>
                map_of (registry (snd ?a)) 9240
                  = Some \<lparr>port = 9240, project_name = ''proj1'', plugin_name = ''panelA'',
                      status = ''reserved'', allocated_at = now quiet_environment,
                      last_seen = now quiet_environment, process_id = None,
                      debug_url = Some (''http://localhost:'' @ str 9240)\<rparr>
                \<and> saved (snd ?a) = registry (snd ?a)"
    by blast+
  from r1 have "?a = (Some 9240, snd ?a)" by (metis prod.collapse)
  with r1' have r4: "map_option status (map_of (registry (snd ?a)) 9240) = Some ''reserved''"
    by simp
  have h2: "(\<forall>q. Some 9230 = Some q
                \<longrightarrow> q = 0 \<or> q \<in> set reserved_ports \<or> is_port_actually_in_use quiet_environment q)"
    by (simp add: reserved_ports_def)
  have g2: "(9230::int) \<le> 9232 \<and> (9232::int) \<le> 9250
            \<and> 9232 \<notin> set reserved_ports \<and> \<not> is_port_actually_in_use quiet_environment 9232
            \<and> (\<forall>r. 9230 \<le> r \<and> r < 9232
                   \<longrightarrow> r \<in> set reserved_ports \<or> is_port_actually_in_use quiet_environment r)"
    by (auto simp: quiet reserved_ports_def)
  from allocate_port_choice
         [of "Some 9230" 0 quiet_environment empty_registry "''proj1''" "''panelA''" "''debug''"
             9230 9250 9232 empty_registry] h2 rng g2
  have r2: "fst (allocate_port quiet_environment empty_registry ''proj1'' ''panelA'' (Some 9230) ''debug'')
              = Some 9232"
    by blast
  have h3: "(\<forall>q. Some 9230 = Some q
                \<longrightarrow> q = 0 \<or> q \<in> set reserved_ports \<or> is_port_actually_in_use bound_9232_environment q)"
    by (simp add: reserved_ports_def)
  have g3: "(9230::int) \<le> 9233 \<and> (9233::int) \<le> 9250
            \<and> 9233 \<notin> set reserved_ports \<and> \<not> is_port_actually_in_use bound_9232_environment 9233
            \<and> (\<forall>r. 9230 \<le> r \<and> r < 9233
                   \<longrightarrow> r \<in> set reserved_ports \<or> is_port_actually_in_use bound_9232_environment r)"
    by (auto simp: bound_9232_environment_def is_port_actually_in_use_def reserved_ports_def)
  from allocate_port_choice
         [of "Some 9230" 0 bound_9232_environment empty_registry "''proj1''" "''panelB''" "''debug''"
             9230 9250 9233 empty_registry] h3 rng g3
  have r3: "fst (allocate_port bound_9232_environment empty_registry ''proj1'' ''panelB'' (Some 9230) ''debug'')
              = Some 9233"
    by blast
  from r1 r2 r3 r4 show ?thesis by simp
qed

section \<open>Two allocations\<close>




section \<open>Validating a port\<close>

lemma validate_port_probe:
  assumes "force \<or> \<not> is_cache_valid self t p"
  shows "validate_port self t sock response p name force =
     (let result = \<lparr>result_port = p, result_plugin_name = name, available = False,
                       reachable = False, is_plugin = False, error = None, timestamp = t,
                       from_cache = False, plugin_title = None\<rparr>
        in case sock of
             Socket_exception e \<Rightarrow> store self p (result\<lparr>error := Some (''Socket error: '' @ e)\<rparr>)
           | Connect_ex connection_result \<Rightarrow>
               if connection_result \<noteq> 0
               then store self p (result\<lparr>error := Some ''Port not open''\<rparr>)
               else (case response of
                  HTTPError code \<Rightarrow>
                    store self p (result\<lparr>error := Some (''HTTP error: '' @ str code)\<rparr>)
                | URLError reason \<Rightarrow>
                    store self p (result\<lparr>error := Some (''URL error: '' @ reason)\<rparr>)
                | Other_exception e \<Rightarrow>
                    store self p (result\<lparr>error := Some (''Unexpected error: '' @ e)\<rparr>)
                | JSONDecodeError e \<Rightarrow>
                    store self p (result\<lparr>error := Some (''Unexpected error: '' @ e)\<rparr>)
                | Not_iterable e \<Rightarrow>
                    store self p (result\<lparr>reachable := True, available := True,
                                         error := Some (''Unexpected error: '' @ e)\<rparr>)
                | Targets targets \<Rightarrow>
                    (case check_targets name targets of
                       Inl e \<Rightarrow>
                         store self p (result\<lparr>reachable := True, available := True,
                                              error := Some (''Unexpected error: '' @ e)\<rparr>)
                     | Inr None \<Rightarrow>
                         store self p (result\<lparr>reachable := True, available := True\<rparr>)
                     | Inr (Some title) \<Rightarrow>
                         store self p (result\<lparr>reachable := True, available := True,
                                              is_plugin := True, plugin_title := Some title\<rparr>))))"
  using assms unfolding validate_port_def by auto

lemma store_caches: "store self p result = (r, self1) \<Longrightarrow> map_of (cache self1) p = Some r"
  by (auto simp: store_def save_cache_def update_conv')

lemma validate_port_caches:
  assumes "validate_port self t sock response p name force = (r, self1)"
  shows "map_of (cache self1) p = Some r"
proof (cases "force \<or> \<not> is_cache_valid self t p")
  case True
  from assms show ?thesis
    unfolding validate_port_probe [OF True] Let_def
    by (auto split: socket_outcome.splits urlopen_outcome.splits sum.splits option.splits
        if_splits dest: store_caches)
next
  case False
  then obtain cached where c: "map_of (cache self) p = Some cached"
    by (auto simp: is_cache_valid_def split: option.splits)
  with False assms show ?thesis
    by (auto simp: validate_port_def update_conv')
qed

text \<open>
  Claim C4. When \<^verbatim>\<open>validate_port\<close> is called without \<^verbatim>\<open>force\<close> and the cache holds a result
  for the port whose timestamp is less than 300 seconds old, the call returns that result
  with \<^verbatim>\<open>from_cache\<close> set, whatever the socket and the HTTP probe would have answered, and
  writes nothing to the cache file. So a second call for the same port, made less than 300
  seconds after the timestamp of the first call's result, returns the first result with
  only \<^verbatim>\<open>from_cache\<close> changed to \<^verbatim>\<open>True\<close>.
\<close>

theorem validate_port_cached:
  "(\<not> force \<and> map_of (cache self) p = Some cached
      \<and> t - timestamp cached < timedelta_seconds 300
     \<longrightarrow> validate_port self t sock response p name force
           = (cached\<lparr>from_cache := True\<rparr>,
              self\<lparr>cache := AList.update p (cached\<lparr>from_cache := True\<rparr>) (cache self)\<rparr>))
   \<and> (validate_port self t sock response p name force = (first, self1)
        \<and> t2 - timestamp first < timedelta_seconds 300
     \<longrightarrow> fst (validate_port self1 t2 sock2 response2 p name2 False)
           = first\<lparr>from_cache := True\<rparr>)"
proof (intro conjI impI)
  assume "\<not> force \<and> map_of (cache self) p = Some cached
            \<and> t - timestamp cached < timedelta_seconds 300"
  then show "validate_port self t sock response p name force
           = (cached\<lparr>from_cache := True\<rparr>,
              self\<lparr>cache := AList.update p (cached\<lparr>from_cache := True\<rparr>) (cache self)\<rparr>)"
    by (simp add: validate_port_def is_cache_valid_def cache_duration_def)
next
  assume a: "validate_port self t sock response p name force = (first, self1)
        \<and> t2 - timestamp first < timedelta_seconds 300"
  then have "map_of (cache self1) p = Some first"
    using validate_port_caches by blast
  with a show "fst (validate_port self1 t2 sock2 response2 p name2 False)
           = first\<lparr>from_cache := True\<rparr>"
    by (simp add: validate_port_def is_cache_valid_def cache_duration_def)
qed

lemma first_validation_value:
  "first_validation =
     (\<lparr>result_port = 9230, result_plugin_name = None, available = True, reachable = True,
       is_plugin = True, error = None, timestamp = 0, from_cache = False,
       plugin_title = Some ''CEP panel''\<rparr>,
      \<lparr>cache = [(9230, \<lparr>result_port = 9230, result_plugin_name = None, available = True,
                  reachable = True, is_plugin = True, error = None, timestamp = 0,
                  from_cache = False, plugin_title = Some ''CEP panel''\<rparr>)],
       cache_file = [(9230, \<lparr>result_port = 9230, result_plugin_name = None, available = True,
                  reachable = True, is_plugin = True, error = None, timestamp = 0,
                  from_cache = False, plugin_title = Some ''CEP panel''\<rparr>)]\<rparr>)"
  by (simp add: first_validation_def validate_port_def is_cache_valid_def empty_validator_def
      store_def save_cache_def truthy_def)

theorem validate_port_cached_witness:
  "fst (validate_port (snd first_validation) (timedelta_seconds 299) (Connect_ex 111)
          (Targets []) 9230 None False)
     = (fst first_validation)\<lparr>from_cache := True\<rparr>
   \<and> timedelta_seconds 299 - timestamp (fst first_validation) < timedelta_seconds 300
   \<and> is_plugin (fst first_validation)
   \<and> \<not> from_cache (fst first_validation)
   \<and> validate_port (snd first_validation) (timedelta_seconds 299) (Connect_ex 111)
          (Targets []) 9230 None False
     = ((fst first_validation)\<lparr>from_cache := True\<rparr>,
        (snd first_validation)\<lparr>cache :=
           AList.update 9230 ((fst first_validation)\<lparr>from_cache := True\<rparr>)
             (cache (snd first_validation))\<rparr>)"
proof -
  have a: "validate_port empty_validator 0 (Connect_ex 0) (Targets [Target (Some ''CEP panel'')])
             9230 None False = (fst first_validation, snd first_validation)
           \<and> timedelta_seconds 299 - timestamp (fst first_validation) < timedelta_seconds 300"
  proof -
    have "validate_port empty_validator 0 (Connect_ex 0) (Targets [Target (Some ''CEP panel'')])
             9230 None False = first_validation"
      by (simp add: first_validation_def)
    moreover have "timedelta_seconds 299 - timestamp (fst first_validation) < timedelta_seconds 300"
      by (simp add: first_validation_value timedelta_seconds_def)
    ultimately show ?thesis by simp
  qed
  have b: "\<not> False \<and> map_of (cache (snd first_validation)) 9230 = Some (fst first_validation)
           \<and> timedelta_seconds 299 - timestamp (fst first_validation) < timedelta_seconds 300"
    by (simp add: first_validation_value timedelta_seconds_def)
  from validate_port_cached
         [of False empty_validator 9230 "fst first_validation" 0 "Connect_ex 0"
             "Targets [Target (Some ''CEP panel'')]" None "fst first_validation"
             "snd first_validation" "timedelta_seconds 299" "Connect_ex 111" "Targets []" None] a
  have r1: "fst (validate_port (snd first_validation) (timedelta_seconds 299) (Connect_ex 111)
          (Targets []) 9230 None False)
     = (fst first_validation)\<lparr>from_cache := True\<rparr>"
    by blast
  from validate_port_cached
         [of False "snd first_validation" 9230 "fst first_validation" "timedelta_seconds 299"
             "Connect_ex 111" "Targets []" None "fst first_validation"
             "snd first_validation" 0 "Connect_ex 111" "Targets []" None] b
  have r2: "validate_port (snd first_validation) (timedelta_seconds 299) (Connect_ex 111)
          (Targets []) 9230 None False
     = ((fst first_validation)\<lparr>from_cache := True\<rparr>,
        (snd first_validation)\<lparr>cache :=
           AList.update 9230 ((fst first_validation)\<lparr>from_cache := True\<rparr>)
             (cache (snd first_validation))\<rparr>)"
    by blast
  have c: "is_plugin (fst first_validation) \<and> \<not> from_cache (fst first_validation)"
    by (simp add: first_validation_value)
  from r1 r2 a c show ?thesis by blast
qed




text \<open>
  Claim C9, as stated, fails for one kind of transport failure: when the socket call
  raises instead of returning a code, the result has \<^verbatim>\<open>reachable = False\<close> and no request is
  made, but its error is \<^verbatim>\<open>Socket error: ...\<close> and not \<^verbatim>\<open>Port not open\<close>.
\<close>

theorem validate_port_socket_exception_counterexample:
  "error (fst (validate_port empty_validator 0 (Socket_exception ''refused'')
                 (Targets []) 9230 None False))
     = Some ''Socket error: refused''
   \<and> error (fst (validate_port empty_validator 0 (Socket_exception ''refused'')
                   (Targets []) 9230 None False))
     \<noteq> Some ''Port not open''"
  by (simp add: validate_port_def is_cache_valid_def empty_validator_def store_def)

text \<open>
  Claim C9, amended. On a probe (a call not served from the cache) where \<^verbatim>\<open>connect_ex\<close>
  returns a non-zero code, the result has \<^verbatim>\<open>reachable = False\<close> and the error
  \<^verbatim>\<open>Port not open\<close>; where the socket call raises, it has \<^verbatim>\<open>reachable = False\<close> and the error
  \<^verbatim>\<open>Socket error: ...\<close>. In both cases the whole outcome is the same whatever the HTTP
  request would have answered: the request is not made.
\<close>

theorem validate_port_transport_failure:
  assumes "force \<or> \<not> is_cache_valid self t p"
  shows "(rc \<noteq> 0 \<longrightarrow>
            fst (validate_port self t (Connect_ex rc) response p name force)
              = \<lparr>result_port = p, result_plugin_name = name, available = False,
                  reachable = False, is_plugin = False, error = Some ''Port not open'',
                  timestamp = t, from_cache = False, plugin_title = None\<rparr>
            \<and> validate_port self t (Connect_ex rc) response p name force
              = validate_port self t (Connect_ex rc) response' p name force)
       \<and> fst (validate_port self t (Socket_exception e) response p name force)
           = \<lparr>result_port = p, result_plugin_name = name, available = False,
               reachable = False, is_plugin = False, error = Some (''Socket error: '' @ e),
               timestamp = t, from_cache = False, plugin_title = None\<rparr>
       \<and> validate_port self t (Socket_exception e) response p name force
           = validate_port self t (Socket_exception e) response' p name force"
  by (simp add: validate_port_probe [OF assms] store_def)

theorem validate_port_transport_failure_witness:
  "(False \<or> \<not> is_cache_valid empty_validator 0 9230)
   \<and> (111::int) \<noteq> 0
   \<and> fst (validate_port empty_validator 0 (Connect_ex 111)
            (Targets [Target (Some ''CEP panel'')]) 9230 None False)
       = \<lparr>result_port = 9230, result_plugin_name = None, available = False,
           reachable = False, is_plugin = False, error = Some ''Port not open'',
           timestamp = 0, from_cache = False, plugin_title = None\<rparr>
   \<and> validate_port empty_validator 0 (Connect_ex 111)
            (Targets [Target (Some ''CEP panel'')]) 9230 None False
       = validate_port empty_validator 0 (Connect_ex 111) (HTTPError 500) 9230 None False
   \<and> fst (validate_port empty_validator 0 (Socket_exception ''refused'')
            (Targets [Target (Some ''CEP panel'')]) 9230 None False)
       = \<lparr>result_port = 9230, result_plugin_name = None, available = False,
           reachable = False, is_plugin = False, error = Some ''Socket error: refused'',
           timestamp = 0, from_cache = False, plugin_title = None\<rparr>
   \<and> validate_port empty_validator 0 (Socket_exception ''refused'')
            (Targets [Target (Some ''CEP panel'')]) 9230 None False
       = validate_port empty_validator 0 (Socket_exception ''refused'') (HTTPError 500)
           9230 None False"
proof -
  have h: "False \<or> \<not> is_cache_valid empty_validator 0 9230"
    by (simp add: is_cache_valid_def empty_validator_def)
  have n: "(111::int) \<noteq> 0" by simp
  from validate_port_transport_failure
         [OF h, of 111 "Targets [Target (Some ''CEP panel'')]" None "HTTPError 500" "''refused''",
          unfolded append_Cons append_Nil]
  show ?thesis using h n by blast
qed

section \<open>Ensuring a healthy plugin\<close>

lemma print_simps [simp]:
  "checker (print m r) = checker r"
  "world (print m r) = world r"
  "printed (print m r) = printed r @ [m]"
  by (simp_all add: print_def)

lemma act_simps [simp]:
  "checker (snd (act f r)) = checker r"
  "printed (snd (act f r)) = printed r"
  by (simp_all add: act_def)

lemma time_sleep_simps [simp]:
  "checker (time_sleep c n r) = checker r"
  "printed (time_sleep c n r) = printed r"
  by (simp_all add: time_sleep_def)

lemma unhealthy_attempts_append:
  "unhealthy_attempts (ms @ ns) = unhealthy_attempts ms @ unhealthy_attempts ns"
  by (induction ms rule: unhealthy_attempts.induct) simp_all

lemma check_dev_server_keeps [simp]:
  "max_retries (checker (snd (check_dev_server c r))) = max_retries (checker r)"
  "unhealthy_attempts (printed (snd (check_dev_server c r))) = unhealthy_attempts (printed r)"
  by (simp_all add: check_dev_server_def)

lemma check_plugin_loaded_keeps [simp]:
  "max_retries (checker (snd (check_plugin_loaded c r))) = max_retries (checker r)"
  "unhealthy_attempts (printed (snd (check_plugin_loaded c r))) = unhealthy_attempts (printed r)"
  by (simp_all add: check_plugin_loaded_def split_beta Let_def unhealthy_attempts_append
      split: option.splits)

lemma perform_health_check_keeps [simp]:
  "max_retries (checker (snd (perform_health_check c r))) = max_retries (checker r)"
  "unhealthy_attempts (printed (snd (perform_health_check c r))) = unhealthy_attempts (printed r)"
  by (simp_all add: perform_health_check_def split_beta Let_def unhealthy_attempts_append)

lemma premiere_step_keeps [simp]:
  "max_retries (checker (snd (premiere_step c r))) = max_retries (checker r)"
  "unhealthy_attempts (printed (snd (premiere_step c r))) = unhealthy_attempts (printed r)"
  by (simp_all add: premiere_step_def split_beta Let_def unhealthy_attempts_append)

lemma panel_step_keeps [simp]:
  "max_retries (checker (snd (panel_step c h r))) = max_retries (checker r)"
  "unhealthy_attempts (printed (snd (panel_step c h r))) = unhealthy_attempts (printed r)"
  by (simp_all add: panel_step_def split_beta Let_def unhealthy_attempts_append)

lemma auto_recover_keeps [simp]:
  "max_retries (checker (snd (auto_recover c r))) = max_retries (checker r)"
  "unhealthy_attempts (printed (snd (auto_recover c r))) = unhealthy_attempts (printed r)"
  by (simp_all add: auto_recover_def split_beta Let_def unhealthy_attempts_append)





end
